theory Spec2Isabelle
  imports Complex_Main "HOL-Library.Word"
begin

section \<open>Exceptions and bounded queues\<close>

text \<open>
  The two Python programs signal failure with exceptions. In the model an exception is a
  value: a computation that may raise returns \<open>exn + 'a\<close>, with \<open>Inl\<close> for the raise.
  \<open>Empty\<close> and \<open>Full\<close> are the exceptions of the \<open>queue\<close> module, \<open>TimeoutExpired\<close> is
  the one of \<open>subprocess\<close>, \<open>ValueError\<close> is what \<open>time.sleep\<close> raises on a negative
  duration and \<open>int\<close> on a NaN, \<open>OverflowError\<close> is what \<open>int\<close> raises on an infinity,
  and \<open>Error msg\<close> stands for any other subclass of \<open>Exception\<close>.
\<close>

datatype exn = Empty | Full | TimeoutExpired | ValueError | OverflowError | Error string

text \<open>
  \<open>queue.Queue(maxsize)\<close>: a FIFO whose operations are atomic (the class holds a lock
  around each of them), so a run of the two threads is a sequence of whole operations.
  \<open>items\<close> is the content, oldest first. A \<open>maxsize\<close> of 0 means unbounded, as in Python.
\<close>

record 'a queue =
  maxsize :: nat
  items :: "'a list"

definition Queue :: "nat \<Rightarrow> 'a queue" where
  "Queue n = \<lparr>maxsize = n, items = []\<rparr>"

definition qsize :: "'a queue \<Rightarrow> nat" where
  "qsize q = length (items q)"

definition full :: "'a queue \<Rightarrow> bool" where
  "full q = (0 < maxsize q \<and> maxsize q \<le> qsize q)"

text \<open>\<open>put_nowait\<close> raises \<open>Full\<close> instead of waiting for a free slot.\<close>

definition put_nowait :: "'a queue \<Rightarrow> 'a \<Rightarrow> exn + 'a queue" where
  "put_nowait q x =
     (if 0 < maxsize q \<and> maxsize q \<le> qsize q then Inl Full
      else Inr (q\<lparr>items := items q @ [x]\<rparr>))"

text \<open>
  \<open>put\<close> with its default \<open>block=True\<close> waits while the queue is full. The worker calls
  it only behind the test \<open>not self.result_queue.full()\<close>, and it is the only producer
  of that queue, so the call appends at once; \<open>put\<close> is used in that situation only.
\<close>

definition put :: "'a queue \<Rightarrow> 'a \<Rightarrow> 'a queue" where
  "put q x = q\<lparr>items := items q @ [x]\<rparr>"

text \<open>
  \<open>get_nowait\<close> removes and returns the oldest item, or raises \<open>Empty\<close>. The worker's
  \<open>get(timeout=0.1)\<close> differs only in waiting up to 100 ms before it raises \<open>Empty\<close>;
  \<open>get_timeout\<close> is that call at the moment it returns.
\<close>

definition get_nowait :: "'a queue \<Rightarrow> exn + ('a \<times> 'a queue)" where
  "get_nowait q =
     (case items q of
        [] \<Rightarrow> Inl Empty
      | x # xs \<Rightarrow> Inr (x, q\<lparr>items := xs\<rparr>))"

definition get_timeout :: "'a queue \<Rightarrow> exn + ('a \<times> 'a queue)" where
  "get_timeout q = get_nowait q"

section \<open>Detection\<close>

text \<open>
  One element of the list \<open>jetson_object_detection\<close> returns: the dictionary with the
  keys \<open>'bbox'\<close>, \<open>'class'\<close> and \<open>'confidence'\<close>.
\<close>

text \<open>
  A Python float, as far as the program can tell one from another: a finite value, an
  infinity or a NaN. Rounding is not modelled; a finite float is the real it stands for.
\<close>

datatype pyfloat = Finite real | PosInf | NegInf | NaN

record Detection =
  bbox :: "int list"
  det_class :: string
  confidence :: pyfloat

text \<open>One detection as the classifier library reports it.\<close>

record RawDetection =
  ClassID :: int
  Confidence :: pyfloat
  Left :: pyfloat
  Top :: pyfloat
  Right :: pyfloat
  Bottom :: pyfloat

text \<open>
  The classifier \<open>net\<close> is an external library. \<open>Detect\<close> stands for everything the
  function does with the frame up to and including \<open>net.Detect\<close> (the shape test, the
  colour conversion, the upload to the GPU): each of these calls may raise.
  \<open>GetClassDesc\<close> resolves a class identifier to its label.
\<close>

record 'f detectNet =
  Detect :: "'f \<Rightarrow> exn + RawDetection list"
  GetClassDesc :: "int \<Rightarrow> exn + string"

definition VEHICLE_CLASSES :: "string \<rightharpoonup> bool" where
  "VEHICLE_CLASSES =
     map_of [(''person'', True), (''bicycle'', True), (''car'', True),
             (''motorcycle'', True), (''bus'', True), (''truck'', True)]"

text \<open>\<open>str.lower\<close> on the ASCII letters, which is what the class labels consist of.\<close>

definition lower_char :: "char \<Rightarrow> char" where
  "lower_char c =
     (let n = (of_char c :: nat) in if 65 \<le> n \<and> n \<le> 90 then char_of (n + 32) else c)"

definition lower :: "string \<Rightarrow> string" where
  "lower s = map lower_char s"

text \<open>
  Python's \<open>int\<close> of a float truncates towards zero; it raises \<open>ValueError\<close> on a NaN
  and \<open>OverflowError\<close> on an infinity.
\<close>

fun py_int :: "pyfloat \<Rightarrow> exn + int" where
  "py_int (Finite x) = Inr (if 0 \<le> x then \<lfloor>x\<rfloor> else \<lceil>x\<rceil>)"
| "py_int NaN = Inl ValueError"
| "py_int PosInf = Inl OverflowError"
| "py_int NegInf = Inl OverflowError"

text \<open>
  The four conversions of one detection, in the order of the source (left, top, right,
  bottom): the bounding box, or the first exception raised.
\<close>

definition detection_bbox :: "RawDetection \<Rightarrow> exn + int list" where
  "detection_bbox detection =
     (case py_int (Left detection) of
        Inl e \<Rightarrow> Inl e
      | Inr left_i \<Rightarrow>
          (case py_int (Top detection) of
             Inl e \<Rightarrow> Inl e
           | Inr top_i \<Rightarrow>
               (case py_int (Right detection) of
                  Inl e \<Rightarrow> Inl e
                | Inr right_i \<Rightarrow>
                    (case py_int (Bottom detection) of
                       Inl e \<Rightarrow> Inl e
                     | Inr bottom_i \<Rightarrow> Inr [left_i, top_i, right_i, bottom_i]))))"

text \<open>
  The body of the \<open>for\<close> loop of \<open>jetson_object_detection\<close>: the results so far are
  threaded through; a raise of \<open>GetClassDesc\<close> or of \<open>int\<close> leaves the loop.
\<close>

fun detection_loop ::
  "'f detectNet \<Rightarrow> RawDetection list \<Rightarrow> Detection list \<Rightarrow> exn + Detection list" where
  "detection_loop net [] detection_results = Inr detection_results"
| "detection_loop net (detection # detections) detection_results =
     (case GetClassDesc net (ClassID detection) of
        Inl e \<Rightarrow> Inl e
      | Inr class_name \<Rightarrow>
          if VEHICLE_CLASSES (lower class_name) \<noteq> None
          then (case detection_bbox detection of
                  Inl e \<Rightarrow> Inl e
                | Inr box \<Rightarrow>
                    detection_loop net detections
                      (detection_results @
                         [\<lparr>bbox = box, det_class = class_name,
                           confidence = Confidence detection\<rparr>]))
          else detection_loop net detections detection_results)"

text \<open>The \<open>try\<close> block of \<open>jetson_object_detection\<close>.\<close>

definition jetson_object_detection_try :: "'f detectNet \<Rightarrow> 'f \<Rightarrow> exn + Detection list" where
  "jetson_object_detection_try net frame =
     (case Detect net frame of
        Inl e \<Rightarrow> Inl e
      | Inr detections \<Rightarrow> detection_loop net detections [])"

text \<open>
  The whole function: \<open>except Exception\<close> prints the error and returns the empty list.
\<close>

definition jetson_object_detection :: "'f detectNet \<Rightarrow> 'f \<Rightarrow> Detection list" where
  "jetson_object_detection net frame =
     (case jetson_object_detection_try net frame of
        Inl e \<Rightarrow> []
      | Inr detection_results \<Rightarrow> detection_results)"

section \<open>The frame processor\<close>

text \<open>
  \<open>FrameProcessor\<close>: the two queues of capacity 2 and the flag the worker polls.
  The field \<open>fp_running\<close> is \<open>self.running\<close> (the watchdog has a field of that name too).
\<close>

record 'f FrameProcessor =
  rgb_queue :: "'f queue"
  result_queue :: "Detection list queue"
  fp_running :: bool

definition FrameProcessor_init :: "'f FrameProcessor" where
  "FrameProcessor_init = \<lparr>rgb_queue = Queue 2, result_queue = Queue 2, fp_running = False\<rparr>"

definition start :: "'f FrameProcessor \<Rightarrow> 'f FrameProcessor" where
  "start p = p\<lparr>fp_running := True\<rparr>"

text \<open>
  \<open>add_rgb_frame\<close>: \<open>put_nowait\<close> under a bare \<open>except: pass\<close>, so whatever the call
  raises is swallowed and the processor is left as it was.
\<close>

definition add_rgb_frame :: "'f FrameProcessor \<Rightarrow> 'f \<Rightarrow> 'f FrameProcessor" where
  "add_rgb_frame p frame =
     (case put_nowait (rgb_queue p) frame of
        Inl e \<Rightarrow> p
      | Inr q \<Rightarrow> p\<lparr>rgb_queue := q\<rparr>)"

text \<open>\<open>get_latest_detection\<close>: \<open>None\<close> is Python's \<open>None\<close>, returned on \<open>Empty\<close>.\<close>

definition get_latest_detection ::
  "'f FrameProcessor \<Rightarrow> Detection list option \<times> 'f FrameProcessor" where
  "get_latest_detection p =
     (case get_nowait (result_queue p) of
        Inl e \<Rightarrow> (None, p)
      | Inr (detections, q) \<Rightarrow> (Some detections, p\<lparr>result_queue := q\<rparr>))"

text \<open>
  The worker hands one completed result over: lines 293--294 of the source, the test
  \<open>not self.result_queue.full()\<close> and the \<open>put\<close> behind it.
\<close>

definition push_result :: "'f FrameProcessor \<Rightarrow> Detection list \<Rightarrow> 'f FrameProcessor" where
  "push_result p detections =
     (if \<not> full (result_queue p)
      then p\<lparr>result_queue := put (result_queue p) detections\<rparr>
      else p)"

text \<open>
  One pass through the body of the \<open>while\<close> loop of \<open>_detection_worker\<close>. The result is
  \<open>Inl e\<close> if the exception \<open>e\<close> leaves the body (and with it the thread), else the
  processor after the pass. \<open>Empty\<close> from the \<open>get\<close> is the \<open>continue\<close>; the handler
  \<open>except Exception\<close> catches every other exception of the \<open>try\<close> block.
\<close>

definition worker_body :: "'f detectNet \<Rightarrow> 'f FrameProcessor \<Rightarrow> exn + 'f FrameProcessor" where
  "worker_body net p =
     (case get_timeout (rgb_queue p) of
        Inl e \<Rightarrow> Inr p
      | Inr (rgb_frame, q) \<Rightarrow>
          Inr (push_result (p\<lparr>rgb_queue := q\<rparr>) (jetson_object_detection net rgb_frame)))"

text \<open>
  The loop \<open>while self.running\<close>, for at most \<open>n\<close> passes. \<open>Inr (True, p)\<close>: the loop ended
  with processor \<open>p\<close> because the flag was cleared; \<open>Inr (False, p)\<close>: the thread is
  still in the loop after \<open>n\<close> passes; \<open>Inl e\<close>: the thread died of \<open>e\<close>.
\<close>

fun detection_worker ::
  "nat \<Rightarrow> 'f detectNet \<Rightarrow> 'f FrameProcessor \<Rightarrow> exn + (bool \<times> 'f FrameProcessor)" where
  "detection_worker 0 net p = Inr (\<not> fp_running p, p)"
| "detection_worker (Suc n) net p =
     (if \<not> fp_running p then Inr (True, p)
      else case worker_body net p of
             Inl e \<Rightarrow> Inl e
           | Inr p' \<Rightarrow> detection_worker n net p')"

section \<open>Alerts and telemetry\<close>

text \<open>
  The module-level variables the alert functions read and write. \<open>sound_enabled\<close> and
  \<open>emulator_enabled\<close> are fixed by the initialisation at import time;
  \<open>current_playing_sound\<close> is \<open>None\<close> or \<open>"chiller"\<close>.
\<close>

record Globals =
  sound_enabled :: bool
  current_playing_sound :: "string option"
  emulator_enabled :: bool

text \<open>
  The calls the program makes on the sound device: \<open>pygame.mixer.stop()\<close> and
  \<open>CHILLER_SOUND.play(loops=n)\<close>.
\<close>

datatype mixer_call = Mixer_stop | Sound_play int

definition play_alert_sound :: "bool \<Rightarrow> Globals \<Rightarrow> mixer_call list \<times> Globals" where
  "play_alert_sound has_detections g =
     (if \<not> sound_enabled g then ([], g)
      else if has_detections then
        (if current_playing_sound g \<noteq> Some ''chiller''
         then ([Mixer_stop, Sound_play (- 1)], g\<lparr>current_playing_sound := Some ''chiller''\<rparr>)
         else ([], g))
      else
        (if current_playing_sound g \<noteq> None
         then ([Mixer_stop], g\<lparr>current_playing_sound := None\<rparr>)
         else ([], g)))"

text \<open>\<open>str\<close> of an integer: its decimal digits, with a minus sign if negative.\<close>

definition digit_char :: "nat \<Rightarrow> char" where
  "digit_char d = ''0123456789'' ! d"

fun str_nat :: "nat \<Rightarrow> string" where
  "str_nat n = (if n < 10 then [digit_char n] else str_nat (n div 10) @ [digit_char (n mod 10)])"

declare str_nat.simps [simp del]

definition str_int :: "int \<Rightarrow> string" where
  "str_int i = (if i < 0 then CHR ''-'' # str_nat (nat (- i)) else str_nat (nat i))"

text \<open>
  \<open>json.dumps\<close> of a dictionary from strings to integers, with the default separators
  \<open>", "\<close> and \<open>": "\<close>. The keys are taken to need no escaping, which holds for the only
  key the program uses. \<open>encode_utf8\<close> is \<open>str.encode('utf-8')\<close> on ASCII text, where
  each character is the one byte of its code.
\<close>

definition json_string :: "string \<Rightarrow> string" where
  "json_string s = [CHR 0x22] @ s @ [CHR 0x22]"

fun json_items :: "(string \<times> int) list \<Rightarrow> string" where
  "json_items [] = []"
| "json_items [(k, v)] = json_string k @ '': '' @ str_int v"
| "json_items ((k, v) # kvs) = json_string k @ '': '' @ str_int v @ '', '' @ json_items kvs"

definition json_dumps :: "(string \<times> int) list \<Rightarrow> string" where
  "json_dumps d = ''{'' @ json_items d @ ''}''"

definition encode_utf8 :: "string \<Rightarrow> 8 word list" where
  "encode_utf8 s = map of_char s"

definition EMULATOR_IP :: string where
  "EMULATOR_IP = ''127.0.0.1''"

definition EMULATOR_PORT :: nat where
  "EMULATOR_PORT = 5555"

text \<open>One UDP datagram: the bytes and the address \<open>sendto\<close> is given.\<close>

record datagram =
  payload :: "8 word list"
  address :: "string \<times> nat"

text \<open>
  \<open>send_to_emulator\<close>. The parameter \<open>sendto\<close> is the socket: for a datagram it either
  raises or returns the number of bytes sent. The result is the list of datagrams that
  left through the socket during the call.
\<close>

definition send_to_emulator ::
  "(datagram \<Rightarrow> exn + nat) \<Rightarrow> bool \<Rightarrow> Globals \<Rightarrow> datagram list" where
  "send_to_emulator sendto has_detections g =
     (if \<not> emulator_enabled g then []
      else
        let detection_level = (if has_detections then 50 else 0);
            message = json_dumps [(''danger_level'', detection_level)];
            d = \<lparr>payload = encode_utf8 message, address = (EMULATOR_IP, EMULATOR_PORT)\<rparr>
        in case sendto d of Inl e \<Rightarrow> [] | Inr n \<Rightarrow> [d])"

section \<open>The main loop of the detection program\<close>

text \<open>
  The state the \<open>while True\<close> loop of \<open>main\<close> carries from one cycle to the next. Drawing,
  the frame-rate counter and the key test do not act on it and are left out.
\<close>

record 'f MainState =
  processor :: "'f FrameProcessor"
  current_detections :: "Detection list"
  globals :: Globals

definition main_init :: "Globals \<Rightarrow> 'f MainState" where
  "main_init g = \<lparr>processor = start FrameProcessor_init, current_detections = [], globals = g\<rparr>"

text \<open>
  The first half of a cycle: if the camera has a frame, hand a copy to the processor.
\<close>

definition main_intake :: "'f option \<Rightarrow> 'f MainState \<Rightarrow> 'f MainState" where
  "main_intake rgb_in s =
     (case rgb_in of
        None \<Rightarrow> s
      | Some rgb_frame \<Rightarrow> s\<lparr>processor := add_rgb_frame (processor s) rgb_frame\<rparr>)"

text \<open>
  The second half: read the result queue once, latch, derive \<open>has_detections\<close>, send the
  telemetry and drive the sound. The outputs are the datagrams sent and the calls made
  on the mixer in this cycle.
\<close>

definition main_dispatch ::
  "(datagram \<Rightarrow> exn + nat) \<Rightarrow> 'f MainState \<Rightarrow> (datagram list \<times> mixer_call list) \<times> 'f MainState" where
  "main_dispatch sendto s =
     (let (latest_detections, p) = get_latest_detection (processor s);
          current = (case latest_detections of
                       None \<Rightarrow> current_detections s
                     | Some ds \<Rightarrow> ds);
          has_detections = (length current > 0);
          sent = (if emulator_enabled (globals s)
                  then send_to_emulator sendto has_detections (globals s) else []);
          (calls, g) = (if sound_enabled (globals s)
                        then play_alert_sound has_detections (globals s)
                        else ([], globals s))
      in ((sent, calls), \<lparr>processor = p, current_detections = current, globals = g\<rparr>))"

definition main_cycle ::
  "(datagram \<Rightarrow> exn + nat) \<Rightarrow> 'f option \<Rightarrow> 'f MainState \<Rightarrow>
     (datagram list \<times> mixer_call list) \<times> 'f MainState" where
  "main_cycle sendto rgb_in s = main_dispatch sendto (main_intake rgb_in s)"

text \<open>
  The alert controller alone, fed a sequence of values of \<open>has_detections\<close>, one per
  cycle: the calls on the mixer, in order, and the globals at the end.
\<close>

fun play_alert_sounds :: "bool list \<Rightarrow> Globals \<Rightarrow> mixer_call list \<times> Globals" where
  "play_alert_sounds [] g = ([], g)"
| "play_alert_sounds (has_detections # hs) g =
     (let (calls, g') = play_alert_sound has_detections g;
          (calls', g'') = play_alert_sounds hs g'
      in (calls @ calls', g''))"

section \<open>The watchdog\<close>

text \<open>
  What the watchdog does to the operating system, each call with its outcome: a raise
  is \<open>Inl e\<close> or \<open>Some e\<close>. \<open>Popen_call cmd r\<close> is \<open>subprocess.Popen(cmd, ...)\<close> returning a
  handle with process id \<open>r\<close>; \<open>Wait t r\<close> is \<open>process.wait(timeout=t)\<close> returning the exit
  code \<open>r\<close>; \<open>Poll r\<close> is \<open>process.poll()\<close>, \<open>None\<close> while the child is alive.
\<close>

datatype effect =
    Popen_call "string list" "exn + nat"
  | Sleep real
  | Terminate "exn option"
  | Wait "real option" "exn + int"
  | Kill "exn option"
  | Poll "int option"

text \<open>
  The answers of the operating system and of the child to the calls of one pass through
  the main loop, or of one call of \<open>stop_process\<close>.
\<close>

record os =
  popen_result :: "exn + nat"
  poll_result :: "int option"
  terminate_result :: "exn option"
  wait_timeout_result :: "exn + int"
  kill_result :: "exn option"
  wait_result :: "exn + int"

record Popen =
  pid :: nat

text \<open>
  \<open>str(Path(p))\<close> on a POSIX system, which is how the constructor stores the script
  path and \<open>build_command\<close> reads it: a leading slash is kept (two of them exactly are
  kept as two), empty components and components \<open>.\<close> are dropped, and the empty path
  is \<open>.\<close>.
\<close>

fun split_slash :: "string \<Rightarrow> string list" where
  "split_slash [] = [[]]"
| "split_slash (c # cs) =
     (if c = CHR ''/'' then [] # split_slash cs
      else case split_slash cs of
             [] \<Rightarrow> [[c]]
           | part # parts \<Rightarrow> (c # part) # parts)"

fun join_slash :: "string list \<Rightarrow> string" where
  "join_slash [] = []"
| "join_slash [part] = part"
| "join_slash (part # parts) = part @ ''/'' @ join_slash parts"

definition splitroot :: "string \<Rightarrow> string \<times> string" where
  "splitroot p =
     (if take 1 p = ''/''
      then (if take 1 (drop 1 p) = ''/''
            then (if take 1 (drop 2 p) = ''/'' then (''/'', drop 1 p) else (take 2 p, drop 2 p))
            else (''/'', drop 1 p))
      else ([], p))"

definition Path_str :: "string \<Rightarrow> string" where
  "Path_str p =
     (let (root, rel) = splitroot p;
          tail = filter (\<lambda>x. x \<noteq> [] \<and> x \<noteq> ''.'') (split_slash rel);
          s = root @ join_slash tail
      in if s = [] then ''.'' else s)"

text \<open>
  \<open>DetectionSystemWatchdog\<close>. \<open>script_path\<close> holds the string of the path object the
  constructor makes of its argument. \<open>trace\<close> is not a field of the class: it lists the
  calls made so far, oldest first. The logger and \<open>start_time\<close> (read only to log the run
  time) are left out; nothing branches on them.
\<close>

record Watchdog =
  script_path :: string
  camera_only :: bool
  restart_delay :: int
  max_restarts :: "int option"
  running :: bool
  process :: "Popen option"
  restart_count :: int
  trace :: "effect list"

definition Watchdog_init :: "string \<Rightarrow> bool \<Rightarrow> int \<Rightarrow> int option \<Rightarrow> Watchdog" where
  "Watchdog_init path cam delay maxr =
     \<lparr>script_path = Path_str path, camera_only = cam, restart_delay = delay, max_restarts = maxr,
      running = True, process = None, restart_count = 0, trace = []\<rparr>"

definition build_command :: "Watchdog \<Rightarrow> string list" where
  "build_command w = [script_path w] @ (if camera_only w then [''--camera-only''] else [])"

definition start_process :: "os \<Rightarrow> Watchdog \<Rightarrow> bool \<times> Watchdog" where
  "start_process env w =
     (let cmd = build_command w in
      case popen_result env of
        Inr p \<Rightarrow>
          (True, w\<lparr>process := Some \<lparr>pid = p\<rparr>, trace := trace w @ [Popen_call cmd (Inr p)]\<rparr>)
      | Inl e \<Rightarrow>
          (False, w\<lparr>trace := trace w @ [Popen_call cmd (Inl e)]\<rparr>))"

text \<open>
  The calls \<open>stop_process\<close> makes on a child, in order: the \<open>try\<close> block with its inner
  handler for \<open>TimeoutExpired\<close>; any other raise ends the block (it is then logged by
  \<open>except Exception\<close>).
\<close>

definition stop_calls :: "os \<Rightarrow> effect list" where
  "stop_calls env =
     (case terminate_result env of
        Some e \<Rightarrow> [Terminate (Some e)]
      | None \<Rightarrow>
          Terminate None #
          (case wait_timeout_result env of
             Inr rc \<Rightarrow> [Wait (Some 10) (Inr rc)]
           | Inl TimeoutExpired \<Rightarrow>
               Wait (Some 10) (Inl TimeoutExpired) #
               (case kill_result env of
                  Some e \<Rightarrow> [Kill (Some e)]
                | None \<Rightarrow> [Kill None, Wait None (wait_result env)])
           | Inl e \<Rightarrow> [Wait (Some 10) (Inl e)]))"

definition stop_process :: "os \<Rightarrow> Watchdog \<Rightarrow> Watchdog" where
  "stop_process env w =
     (case process w of
        None \<Rightarrow> w
      | Some p \<Rightarrow> w\<lparr>process := None, trace := trace w @ stop_calls env\<rparr>)"

definition signal_handler :: "os \<Rightarrow> Watchdog \<Rightarrow> Watchdog" where
  "signal_handler env w = stop_process env (w\<lparr>running := False\<rparr>)"

text \<open>
  \<open>monitor_process\<close>. Reading the child's output (\<open>communicate\<close>, \<open>select\<close>,
  \<open>readline\<close>) happens under bare \<open>except\<close> clauses and only feeds the log.
\<close>

definition monitor_process :: "os \<Rightarrow> Watchdog \<Rightarrow> bool \<times> Watchdog" where
  "monitor_process env w =
     (case process w of
        None \<Rightarrow> (False, w)
      | Some p \<Rightarrow>
          (case poll_result env of
             Some return_code \<Rightarrow>
               (False, w\<lparr>process := None, trace := trace w @ [Poll (Some return_code)]\<rparr>)
           | None \<Rightarrow> (True, w\<lparr>trace := trace w @ [Poll None]\<rparr>)))"

definition should_restart :: "Watchdog \<Rightarrow> bool" where
  "should_restart w =
     (if \<not> running w then False
      else if restart_count w = 0 then True
      else case max_restarts w of
             Some m \<Rightarrow> (if restart_count w \<ge> m then False else True)
           | None \<Rightarrow> True)"

text \<open>\<open>time.sleep\<close>: raises \<open>ValueError\<close> on a negative duration.\<close>

definition sleep :: "real \<Rightarrow> Watchdog \<Rightarrow> exn + Watchdog" where
  "sleep secs w = (if secs < 0 then Inl ValueError else Inr (w\<lparr>trace := trace w @ [Sleep secs]\<rparr>))"

text \<open>
  How a pass through the \<open>try\<close> block of the main loop ends: with \<open>break\<close>, with
  \<open>continue\<close>, or by reaching the end of the block.
\<close>

datatype ctl = Break | Continue | Next

text \<open>The last two statements of the \<open>try\<close> block: monitor, then sleep half a second.\<close>

definition run_monitor :: "os \<Rightarrow> Watchdog \<Rightarrow> Watchdog \<times> (exn + ctl)" where
  "run_monitor env w =
     (case monitor_process env w of
        (False, w') \<Rightarrow> (w', Inr Continue)
      | (True, w') \<Rightarrow>
          (case sleep 0.5 w' of
             Inl e \<Rightarrow> (w', Inl e)
           | Inr w'' \<Rightarrow> (w'', Inr Next)))"

text \<open>
  The \<open>try\<close> block of the main loop. The result is the watchdog as the block leaves it
  and either the exception that ended the block or the way it ended.
\<close>

definition run_try :: "os \<Rightarrow> Watchdog \<Rightarrow> Watchdog \<times> (exn + ctl)" where
  "run_try env w =
     (if process w = None then
        (if \<not> should_restart w then (w, Inr Break)
         else
           case (if restart_count w > 0 then sleep (real_of_int (restart_delay w)) w
                 else Inr w) of
             Inl e \<Rightarrow> (w, Inl e)
           | Inr w1 \<Rightarrow>
               (case start_process env w1 of
                  (True, w2) \<Rightarrow> run_monitor env (w2\<lparr>restart_count := restart_count w2 + 1\<rparr>)
                | (False, w2) \<Rightarrow>
                    (case sleep (real_of_int (restart_delay w2)) w2 of
                       Inl e \<Rightarrow> (w2, Inl e)
                     | Inr w3 \<Rightarrow> (w3, Inr Continue))))
      else run_monitor env w)"

text \<open>
  One pass through the body of \<open>while self.running\<close>: the \<open>try\<close> block and the handler
  \<open>except Exception\<close>, which sleeps one second. (\<open>KeyboardInterrupt\<close> cannot reach the
  loop: the constructor replaces the handler of \<open>SIGINT\<close> that would raise it.)
\<close>

definition run_body :: "os \<Rightarrow> Watchdog \<Rightarrow> ctl \<times> Watchdog" where
  "run_body env w =
     (case run_try env w of
        (w', Inr c) \<Rightarrow> (c, w')
      | (w', Inl e) \<Rightarrow>
          (case sleep 1 w' of
             Inl e' \<Rightarrow> (Next, w')
           | Inr w'' \<Rightarrow> (Next, w'')))"

text \<open>
  The loop \<open>while self.running\<close> for at most \<open>n\<close> passes; pass number \<open>i\<close> gets the answers
  \<open>envs i\<close>. \<open>(True, w)\<close>: the loop has ended with watchdog \<open>w\<close>; \<open>(False, w)\<close>: after \<open>n\<close>
  passes the loop is still running, with watchdog \<open>w\<close>.
\<close>

fun run_loop :: "nat \<Rightarrow> (nat \<Rightarrow> os) \<Rightarrow> nat \<Rightarrow> Watchdog \<Rightarrow> bool \<times> Watchdog" where
  "run_loop 0 envs i w = (\<not> running w, w)"
| "run_loop (Suc n) envs i w =
     (if \<not> running w then (True, w)
      else case run_body (envs i) w of
             (Break, w') \<Rightarrow> (True, w')
           | (c, w') \<Rightarrow> run_loop n envs (Suc i) w')"






fun is_reaped :: "effect \<Rightarrow> bool" where
  "is_reaped (Wait t (Inr rc)) = True"
| "is_reaped e = False"

definition confirmed_dead :: "effect list \<Rightarrow> bool" where
  "confirmed_dead tr = (case rev tr of [] \<Rightarrow> False | e # es \<Rightarrow> is_reaped e)"

section \<open>Runs of the two programs\<close>

text \<open>
  The operations on a frame processor are atomic, so a run of the capture loop against
  the worker thread is a sequence of them: the capture loop submits a frame, the worker
  makes one pass of its loop, the main loop reads the result queue. No exception leaves
  \<open>worker_body\<close>; were one to, the thread would end and the processor stay as it is.
\<close>

datatype 'f pipeline_op = Submit 'f | Worker_pass | Read_result

fun apply_op :: "'f detectNet \<Rightarrow> 'f pipeline_op \<Rightarrow> 'f FrameProcessor \<Rightarrow> 'f FrameProcessor" where
  "apply_op net (Submit frame) p = add_rgb_frame p frame"
| "apply_op net Worker_pass p = (case worker_body net p of Inl e \<Rightarrow> p | Inr p' \<Rightarrow> p')"
| "apply_op net Read_result p = snd (get_latest_detection p)"

fun apply_ops :: "'f detectNet \<Rightarrow> 'f pipeline_op list \<Rightarrow> 'f FrameProcessor \<Rightarrow> 'f FrameProcessor" where
  "apply_ops net [] p = p"
| "apply_ops net (x # xs) p = apply_ops net xs (apply_op net x p)"

text \<open>
  The worker completes the results \<open>rs\<close> one after the other, each handed over by
  \<open>push_result\<close>, with no read in between.
\<close>

fun push_results :: "'f FrameProcessor \<Rightarrow> Detection list list \<Rightarrow> 'f FrameProcessor" where
  "push_results p [] = p"
| "push_results p (r # rs) = push_results (push_result p r) rs"

text \<open>
  Consecutive cycles of the main loop with no pass of the worker in between, one camera
  input per cycle; the outputs of the cycles in order, and the state at the end.
\<close>

fun main_cycles ::
  "(datagram \<Rightarrow> exn + nat) \<Rightarrow> 'f option list \<Rightarrow> 'f MainState \<Rightarrow>
     (datagram list \<times> mixer_call list) list \<times> 'f MainState" where
  "main_cycles sendto [] s = ([], s)"
| "main_cycles sendto (rgb_in # ins) s =
     (let (out, s') = main_cycle sendto rgb_in s;
          (outs, s'') = main_cycles sendto ins s'
      in (out # outs, s''))"

text \<open>
  The sound agrees with the latched detections: with the sound enabled, the chiller is
  playing exactly if the latched list is not empty. Every cycle of the main loop leaves
  the state so.
\<close>

definition alert_settled :: "'f MainState \<Rightarrow> bool" where
  "alert_settled s =
     (if sound_enabled (globals s)
      then current_playing_sound (globals s) =
             (if current_detections s \<noteq> [] then Some ''chiller'' else None)
      else True)"




text \<open>The datagram that carries a given danger level to the emulator.\<close>

definition danger_datagram :: "int \<Rightarrow> datagram" where
  "danger_datagram level =
     \<lparr>payload = encode_utf8 (json_dumps [(''danger_level'', level)]),
      address = (EMULATOR_IP, EMULATOR_PORT)\<rparr>"

section \<open>Sample inputs\<close>

text \<open>
  A classifier for frames numbered by integers: frame 1 shows a car, frame 2 shows
  nothing, on any other frame the classifier raises.
\<close>

definition sample_car :: RawDetection where
  "sample_car =
     \<lparr>ClassID = 3, Confidence = Finite 0.9, Left = Finite 10.5, Top = Finite 20,
      Right = Finite 110.25, Bottom = Finite 80\<rparr>"

definition sample_net :: "int detectNet" where
  "sample_net =
     \<lparr>Detect = (\<lambda>f. if f = 1 then Inr [sample_car]
                   else if f = 2 then Inr []
                   else Inl (Error ''CUDA failure'')),
      GetClassDesc = (\<lambda>i. Inr ''car'')\<rparr>"

definition car_detection :: Detection where
  "car_detection =
     \<lparr>bbox = [10, 20, 110, 80], det_class = ''car'', confidence = Finite 0.9\<rparr>"

definition globals_on :: Globals where
  "globals_on = \<lparr>sound_enabled = True, current_playing_sound = None, emulator_enabled = True\<rparr>"

text \<open>
  The running processor after the capture loop has submitted frame 3 (on which the
  classifier raises) and then frame 1.
\<close>

definition sample_processor :: "int FrameProcessor" where
  "sample_processor = apply_ops sample_net [Submit 3, Submit 1] (start FrameProcessor_init)"

text \<open>A socket that sends every datagram, and one that is unreachable.\<close>

definition socket_ok :: "datagram \<Rightarrow> exn + nat" where
  "socket_ok d = Inr (length (payload d))"

definition socket_down :: "datagram \<Rightarrow> exn + nat" where
  "socket_down d = Inl (Error ''Network is unreachable'')"



definition env_stubborn :: os where
  "env_stubborn =
     \<lparr>popen_result = Inr 4242, poll_result = None, terminate_result = None,
      wait_timeout_result = Inl TimeoutExpired, kill_result = None, wait_result = Inr (- 9)\<rparr>"

definition env_terminate_raises :: os where
  "env_terminate_raises =
     \<lparr>popen_result = Inr 4242, poll_result = None,
      terminate_result = Some (Error ''Operation not permitted''),
      wait_timeout_result = Inr 0, kill_result = None, wait_result = Inr (- 9)\<rparr>"

text \<open>
  The main loop before a cycle in which it will read the result \<open>[car_detection]\<close>:
  nothing latched yet, nothing playing.
\<close>

definition sample_state :: "int MainState" where
  "sample_state =
     \<lparr>processor = push_result (start FrameProcessor_init) [car_detection],
      current_detections = [],
      globals = globals_on\<rparr>"

text \<open>The state that cycle leaves, when the camera hands it frame 1.\<close>

definition sample_latched :: "int MainState" where
  "sample_latched =
     \<lparr>processor =
        \<lparr>rgb_queue = \<lparr>maxsize = 2, items = [1]\<rparr>,
         result_queue = \<lparr>maxsize = 2, items = []\<rparr>,
         fp_running = True\<rparr>,
      current_detections = [car_detection],
      globals = globals_on\<lparr>current_playing_sound := Some ''chiller''\<rparr>\<rparr>"



text \<open>A child on which the kill raises after it has ignored the request to terminate.\<close>

definition env_kill_raises :: os where
  "env_kill_raises =
     \<lparr>popen_result = Inr 4242, poll_result = None, terminate_result = None,
      wait_timeout_result = Inl TimeoutExpired,
      kill_result = Some (Error ''Operation not permitted''), wait_result = Inr (- 9)\<rparr>"

text \<open>A watchdog with a child running, and one fresh from the constructor.\<close>

definition watchdog_fresh :: Watchdog where
  "watchdog_fresh = Watchdog_init ''./run_integrated_detection_system.sh'' True 5 None"

definition watchdog_busy :: Watchdog where
  "watchdog_busy = watchdog_fresh\<lparr>process := Some \<lparr>pid = 4242\<rparr>, restart_count := 1\<rparr>"




section \<open>The frame queue under load\<close>

lemma sample_script_path:
  "Path_str ''./run_integrated_detection_system.sh'' = ''run_integrated_detection_system.sh''"
  by code_simp

lemma add_rgb_frame_maxsize:
  "maxsize (rgb_queue (add_rgb_frame p frame)) = maxsize (rgb_queue p)"
  by (simp add: add_rgb_frame_def put_nowait_def)

lemma add_rgb_frame_qsize:
  "qsize (rgb_queue (add_rgb_frame p frame)) =
     (if full (rgb_queue p) then qsize (rgb_queue p) else Suc (qsize (rgb_queue p)))"
  by (simp add: add_rgb_frame_def put_nowait_def full_def qsize_def)

lemma push_result_rgb_queue: "rgb_queue (push_result p r) = rgb_queue p"
  by (simp add: push_result_def)

lemma push_result_running: "fp_running (push_result p r) = fp_running p"
  by (simp add: push_result_def)

lemma worker_body_rgb:
  "worker_body net p = Inr p' \<Longrightarrow>
     maxsize (rgb_queue p') = maxsize (rgb_queue p) \<and> qsize (rgb_queue p') \<le> qsize (rgb_queue p)"
  by (auto simp: worker_body_def get_timeout_def get_nowait_def qsize_def push_result_rgb_queue
           split: list.splits)

lemma get_latest_detection_rgb: "rgb_queue (snd (get_latest_detection p)) = rgb_queue p"
  by (simp add: get_latest_detection_def split: sum.splits prod.splits)

lemma apply_op_bounded:
  assumes "maxsize (rgb_queue p) = 2" and "qsize (rgb_queue p) \<le> 2"
  shows "maxsize (rgb_queue (apply_op net x p)) = 2 \<and> qsize (rgb_queue (apply_op net x p)) \<le> 2"
proof (cases x)
  case (Submit frame)
  with assms show ?thesis
    by (auto simp: add_rgb_frame_maxsize add_rgb_frame_qsize full_def)
next
  case Worker_pass
  with assms show ?thesis
    by (auto split: sum.splits dest!: worker_body_rgb)
next
  case Read_result
  with assms show ?thesis
    by (simp add: get_latest_detection_rgb)
qed

lemma apply_ops_bounded:
  "maxsize (rgb_queue p) = 2 \<Longrightarrow> qsize (rgb_queue p) \<le> 2 \<Longrightarrow>
     maxsize (rgb_queue (apply_ops net xs p)) = 2 \<and> qsize (rgb_queue (apply_ops net xs p)) \<le> 2"
proof (induction xs arbitrary: p)
  case Nil
  then show ?case by simp
next
  case (Cons x xs)
  from apply_op_bounded [OF Cons.prems, of net x]
  show ?case by (simp add: Cons.IH)
qed

lemma init_bounded:
  "maxsize (rgb_queue (FrameProcessor_init :: 'f FrameProcessor)) = 2 \<and>
   qsize (rgb_queue (FrameProcessor_init :: 'f FrameProcessor)) \<le> 2"
  by (simp add: FrameProcessor_init_def Queue_def qsize_def)

lemma add_rgb_frame_cases:
  "maxsize (rgb_queue p) = 2 \<Longrightarrow>
   add_rgb_frame p frame =
     (if qsize (rgb_queue p) \<ge> 2 then p
      else p\<lparr>rgb_queue := (rgb_queue p)\<lparr>items := items (rgb_queue p) @ [frame]\<rparr>\<rparr>)"
  by (simp add: add_rgb_frame_def put_nowait_def)

text \<open>
  Claim C7 (backpressure). Let \<open>p\<close> be the frame processor after any sequence of
  submits, worker passes and reads from its initial state, with any classifier. Then the
  frame queue of \<open>p\<close> holds at most 2 frames; \<open>add_rgb_frame\<close> on \<open>p\<close> returns a
  processor (the \<open>Full\<close> of \<open>put_nowait\<close> does not leave it): \<open>p\<close> itself, the frame
  discarded, if the queue holds 2 frames, and \<open>p\<close> with the frame appended otherwise; and
  the queue holds at most 2 frames afterwards.
\<close>

theorem backpressure:
  "(let p = apply_ops net ops FrameProcessor_init in
      qsize (rgb_queue p) \<le> 2
    \<and> add_rgb_frame p frame =
        (if qsize (rgb_queue p) = 2 then p
         else p\<lparr>rgb_queue := (rgb_queue p)\<lparr>items := items (rgb_queue p) @ [frame]\<rparr>\<rparr>)
    \<and> qsize (rgb_queue (add_rgb_frame p frame)) \<le> 2)"
proof -
  let ?p = "apply_ops net ops FrameProcessor_init"
  have b: "maxsize (rgb_queue ?p) = 2 \<and> qsize (rgb_queue ?p) \<le> 2"
    using init_bounded apply_ops_bounded by blast
  then show ?thesis
    by (auto simp: Let_def add_rgb_frame_cases qsize_def)
qed

section \<open>Which result a read yields\<close>

lemma lower_car: "lower ''car'' = ''car''"
  by code_simp

lemma sample_net_car: "jetson_object_detection sample_net 1 = [car_detection]"
  by (simp add: jetson_object_detection_def jetson_object_detection_try_def sample_net_def
        sample_car_def car_detection_def detection_bbox_def lower_car VEHICLE_CLASSES_def)

lemma sample_net_nothing: "jetson_object_detection sample_net 2 = []"
  by (simp add: jetson_object_detection_def jetson_object_detection_try_def sample_net_def)

lemma sample_net_raises: "jetson_object_detection_try sample_net 3 = Inl (Error ''CUDA failure'')"
  by (simp add: jetson_object_detection_try_def sample_net_def)

lemma push_result_items:
  "maxsize (result_queue p) = 2 \<Longrightarrow>
   items (result_queue (push_result p r)) =
     (if length (items (result_queue p)) < 2 then items (result_queue p) @ [r]
      else items (result_queue p))"
  by (auto simp: push_result_def full_def put_def qsize_def)

lemma push_result_maxsize: "maxsize (result_queue (push_result p r)) = maxsize (result_queue p)"
  by (simp add: push_result_def put_def)

lemma push_results_items:
  "maxsize (result_queue p) = 2 \<Longrightarrow>
   items (result_queue (push_results p rs)) =
     items (result_queue p) @ take (2 - length (items (result_queue p))) rs"
proof (induction rs arbitrary: p)
  case Nil
  then show ?case by simp
next
  case (Cons r rs)
  then show ?case
    by (simp add: push_result_items push_result_maxsize take_Cons')
qed

text \<open>
  From an empty result queue, whatever number of results the worker completes before
  the read, the read yields the first of them, and the queue keeps the first two.
\<close>

lemma oldest_result_first:
  fixes p :: "'f FrameProcessor"
  assumes "p = start FrameProcessor_init"
  shows "fst (get_latest_detection (push_results p (r # rs))) = Some r
       \<and> items (result_queue (push_results p (r # rs))) = take 2 (r # rs)"
proof -
  let ?p = "p"
  have m: "maxsize (result_queue ?p) = 2" and i: "items (result_queue ?p) = []"
    using assms by (simp_all add: start_def FrameProcessor_init_def Queue_def)
  have "items (result_queue (push_results ?p (r # rs))) = take 2 (r # rs)"
    using push_results_items [OF m, of "r # rs"] i by simp
  then show ?thesis
    by (simp add: get_latest_detection_def get_nowait_def take_Cons' split: list.splits)
qed

text \<open>
  Claim C1 (latest-wins), evaluated on the code. Frame 1 (a car) and frame 2 (nothing)
  are submitted and the worker completes both before the main loop reads once. The read
  yields the result of frame 1, the oldest, although the result of frame 2, the empty
  list, was completed later. With three results completed before the read, the queue of
  capacity 2 keeps the two oldest: the newest is the one discarded.
\<close>

theorem latest_wins_oldest_returned:
  "fst (get_latest_detection
          (apply_ops sample_net [Submit 1, Submit 2, Worker_pass, Worker_pass]
             (start FrameProcessor_init))) = Some [car_detection]
   \<and> jetson_object_detection sample_net 2 = []
   \<and> [car_detection] \<noteq> []
   \<and> items (result_queue
        (push_results (start FrameProcessor_init :: int FrameProcessor)
           [[car_detection], [], [car_detection, car_detection]])) = [[car_detection], []]"
  by (simp add: get_latest_detection_def get_nowait_def start_def FrameProcessor_init_def
        Queue_def push_result_def full_def qsize_def put_def add_rgb_frame_def put_nowait_def
        worker_body_def get_timeout_def sample_net_car sample_net_nothing)

section \<open>A classifier that raises\<close>

lemma worker_body_frame:
  "items (rgb_queue p) = frame # frames \<Longrightarrow>
   worker_body net p =
     Inr (push_result (p\<lparr>rgb_queue := (rgb_queue p)\<lparr>items := frames\<rparr>\<rparr>)
            (jetson_object_detection net frame))"
  by (simp add: worker_body_def get_timeout_def get_nowait_def)

lemma worker_body_never_raises: "worker_body net p \<noteq> Inl e"
  by (simp add: worker_body_def split: sum.splits prod.splits)

lemma Detect_raises:
  "Detect net frame = Inl e \<Longrightarrow> jetson_object_detection_try net frame = Inl e"
  by (simp add: jetson_object_detection_try_def)

text \<open>
  Claim C6 (classifier-failure isolation). Let the \<open>try\<close> block of
  \<open>jetson_object_detection\<close> raise \<open>e\<close> on \<open>frame\<close> (the classifier call raises, or the
  label lookup does), and let the running worker find \<open>frame\<close> and then \<open>next_frame\<close> in
  its queue. Then the detection function returns the empty list for \<open>frame\<close>; no
  exception leaves the body of the worker loop, for any processor; the pass for
  \<open>frame\<close> hands the empty list over and leaves \<open>next_frame\<close> at the head of the queue;
  and the worker goes on: its second pass runs the detection on \<open>next_frame\<close> and hands
  that result over.
\<close>

theorem classifier_failure_isolation:
  assumes "jetson_object_detection_try net frame = Inl e"
      and "items (rgb_queue p) = frame # next_frame # frames"
      and "fp_running p"
  shows "jetson_object_detection net frame = []
       \<and> (\<forall>p' e'. worker_body net p' \<noteq> Inl e')
       \<and> worker_body net p =
           Inr (push_result (p\<lparr>rgb_queue := (rgb_queue p)\<lparr>items := next_frame # frames\<rparr>\<rparr>) [])
       \<and> detection_worker (Suc (Suc n)) net p =
           detection_worker n net
             (push_result
                (push_result (p\<lparr>rgb_queue := (rgb_queue p)\<lparr>items := frames\<rparr>\<rparr>) [])
                (jetson_object_detection net next_frame))"
proof -
  have r: "jetson_object_detection net frame = []"
    using assms(1) by (simp add: jetson_object_detection_def)
  have n: "\<forall>p' e'. worker_body net p' \<noteq> Inl e'"
    by (simp add: worker_body_never_raises)
  let ?p1 = "push_result (p\<lparr>rgb_queue := (rgb_queue p)\<lparr>items := next_frame # frames\<rparr>\<rparr>) []"
  let ?p2 = "push_result
               (push_result (p\<lparr>rgb_queue := (rgb_queue p)\<lparr>items := frames\<rparr>\<rparr>) [])
               (jetson_object_detection net next_frame)"
  have b1: "worker_body net p = Inr ?p1"
    using assms(2) r by (simp add: worker_body_frame)
  have b2: "worker_body net ?p1 = Inr ?p2"
    by (simp add: worker_body_def get_timeout_def get_nowait_def push_result_def)
  have run1: "fp_running ?p1"
    using assms(3) by (simp add: push_result_running)
  have "detection_worker (Suc (Suc n)) net p = detection_worker (Suc n) net ?p1"
    using assms(3) b1 by simp
  also have "\<dots> = detection_worker n net ?p2"
    using run1 b2 by simp
  finally show ?thesis
    using r n b1 by blast
qed

lemma sample_processor_eq:
  "sample_processor =
     \<lparr>rgb_queue = \<lparr>maxsize = 2, items = [3, 1]\<rparr>,
      result_queue = \<lparr>maxsize = 2, items = []\<rparr>,
      fp_running = True\<rparr>"
  by (simp add: sample_processor_def start_def FrameProcessor_init_def Queue_def
        add_rgb_frame_def put_nowait_def qsize_def)

theorem classifier_failure_isolation_witness:
  "jetson_object_detection_try sample_net 3 = Inl (Error ''CUDA failure'')
   \<and> items (rgb_queue sample_processor) = [3, 1]
   \<and> fp_running sample_processor
   \<and> jetson_object_detection sample_net 3 = []
   \<and> worker_body sample_net sample_processor =
       Inr \<lparr>rgb_queue = \<lparr>maxsize = 2, items = [1]\<rparr>,
            result_queue = \<lparr>maxsize = 2, items = [[]]\<rparr>,
            fp_running = True\<rparr>
   \<and> detection_worker 2 sample_net sample_processor =
       Inr (False,
            \<lparr>rgb_queue = \<lparr>maxsize = 2, items = []\<rparr>,
             result_queue = \<lparr>maxsize = 2, items = [[], [car_detection]]\<rparr>,
             fp_running = True\<rparr>)"
proof -
  have h1: "jetson_object_detection_try sample_net 3 = Inl (Error ''CUDA failure'')"
    by (rule sample_net_raises)
  have h2: "items (rgb_queue sample_processor) = 3 # 1 # []"
    by (simp add: sample_processor_eq)
  have h3: "fp_running sample_processor"
    by (simp add: sample_processor_eq)
  note t = classifier_failure_isolation [OF h1 h2 h3, of 0]
  let ?p1 = "\<lparr>rgb_queue = \<lparr>maxsize = 2, items = [1]\<rparr>,
             result_queue = \<lparr>maxsize = 2, items = [[]]\<rparr>,
             fp_running = True\<rparr> :: int FrameProcessor"
  let ?p2 = "\<lparr>rgb_queue = \<lparr>maxsize = 2, items = []\<rparr>,
             result_queue = \<lparr>maxsize = 2, items = [[], [car_detection]]\<rparr>,
             fp_running = True\<rparr> :: int FrameProcessor"
  have a: "jetson_object_detection sample_net 3 = []"
    using t by blast
  have e1: "push_result
              (sample_processor\<lparr>rgb_queue := (rgb_queue sample_processor)\<lparr>items := [1]\<rparr>\<rparr>) []
            = ?p1"
    by (simp add: sample_processor_eq push_result_def full_def qsize_def put_def)
  have e2: "push_result
              (push_result
                 (sample_processor\<lparr>rgb_queue := (rgb_queue sample_processor)\<lparr>items := []\<rparr>\<rparr>) [])
              (jetson_object_detection sample_net 1)
            = ?p2"
    by (simp add: sample_processor_eq push_result_def full_def qsize_def put_def sample_net_car)
  have b: "worker_body sample_net sample_processor = Inr ?p1"
    using t e1 by simp
  have "detection_worker (Suc (Suc 0)) sample_net sample_processor
          = detection_worker 0 sample_net ?p2"
    using t e2 by simp
  then have c: "detection_worker 2 sample_net sample_processor = Inr (False, ?p2)"
    by (simp add: numeral_2_eq_2)
  show ?thesis
    using h1 h2 h3 a b c by simp
qed

section \<open>The restart policy\<close>

text \<open>
  Claim C3 (\<open>should_restart\<close>). The function returns true exactly if the watchdog is
  running (not shutting down) and the restart count is 0, or no maximum is set, or the
  count is below the maximum. In particular it returns true for a running watchdog with
  restart count 0, whatever the maximum \<open>m0\<close> is (unset, zero, negative or positive).
\<close>

theorem should_restart_iff:
  "should_restart w =
     (running w \<and> (restart_count w = 0 \<or> max_restarts w = None
                     \<or> (\<exists>m. max_restarts w = Some m \<and> restart_count w < m)))
   \<and> should_restart (w\<lparr>running := True, restart_count := 0, max_restarts := m0\<rparr>)"
  by (auto simp: should_restart_def split: option.splits)



section \<open>The sound actuator\<close>

text \<open>
  Claim C2 as stated (exactly one start call and exactly one stop call for the sequence
  absent, present, present, present, absent) does not hold of the calls the code makes:
  the mixer is told to stop twice, since the branch that starts the sound calls
  \<open>pygame.mixer.stop()\<close> before \<open>play\<close>.
\<close>

theorem edge_triggering_counterexample:
  "\<not> (count_list (fst (play_alert_sounds [False, True, True, True, False] globals_on))
            (Sound_play (- 1)) = 1
      \<and> count_list (fst (play_alert_sounds [False, True, True, True, False] globals_on))
            Mixer_stop = 1)
   \<and> fst (play_alert_sounds [False, True, True, True, False] globals_on) =
        [Mixer_stop, Sound_play (- 1), Mixer_stop]"
  by (simp add: play_alert_sound_def globals_on_def)

text \<open>
  Claim C2 (edge-triggering), amended. With the sound enabled and nothing playing, the
  sequence absent, present, present, present, absent makes the code call the mixer
  three times in all: \<open>stop\<close> and then \<open>play(loops=-1)\<close> in the first cycle with danger
  present (one start, which begins by stopping the mixer), and \<open>stop\<close> in the cycle in
  which danger becomes absent; nothing is playing afterwards. Cycle by cycle: with danger
  present and the sound playing there is no call and no change; with danger absent and
  the sound playing the mixer is stopped in that same cycle; with danger absent and
  nothing playing there is no call.
\<close>

theorem edge_triggering_amended:
  assumes "sound_enabled g" and "current_playing_sound g = None"
  shows "play_alert_sounds [False, True, True, True, False] g =
           ([Mixer_stop, Sound_play (- 1), Mixer_stop], g\<lparr>current_playing_sound := None\<rparr>)
       \<and> play_alert_sound True g =
           ([Mixer_stop, Sound_play (- 1)], g\<lparr>current_playing_sound := Some ''chiller''\<rparr>)
       \<and> play_alert_sound True (g\<lparr>current_playing_sound := Some ''chiller''\<rparr>) =
           ([], g\<lparr>current_playing_sound := Some ''chiller''\<rparr>)
       \<and> play_alert_sound False (g\<lparr>current_playing_sound := Some ''chiller''\<rparr>) =
           ([Mixer_stop], g\<lparr>current_playing_sound := None\<rparr>)
       \<and> play_alert_sound False g = ([], g)"
  using assms by (simp add: play_alert_sound_def)

theorem edge_triggering_amended_witness:
  "sound_enabled globals_on \<and> current_playing_sound globals_on = None
   \<and> play_alert_sounds [False, True, True, True, False] globals_on =
       ([Mixer_stop, Sound_play (- 1), Mixer_stop], globals_on)
   \<and> play_alert_sound True (globals_on\<lparr>current_playing_sound := Some ''chiller''\<rparr>) =
       ([], globals_on\<lparr>current_playing_sound := Some ''chiller''\<rparr>)"
  using edge_triggering_amended [of globals_on]
  by (simp add: globals_on_def)

section \<open>Telemetry\<close>

lemma danger_level_50: \<open>json_dumps [(''danger_level'', 50)] = ''{"danger_level": 50}''\<close>
  by (simp add: json_dumps_def json_string_def str_int_def str_nat.simps digit_char_def)

lemma danger_level_0: \<open>json_dumps [(''danger_level'', 0)] = ''{"danger_level": 0}''\<close>
  by (simp add: json_dumps_def json_string_def str_int_def str_nat.simps digit_char_def)

lemma send_to_emulator_cases:
  "send_to_emulator sendto h g =
     (if emulator_enabled g \<and> \<not> isl (sendto (danger_datagram (if h then 50 else 0)))
      then [danger_datagram (if h then 50 else 0)] else [])"
  by (auto simp: send_to_emulator_def danger_datagram_def Let_def split: sum.splits)

text \<open>
  Claim C5 as stated (every call sends exactly one datagram) does not hold: with the
  emulator disabled the function returns at its first test, and when the socket raises
  the exception is caught; in both cases no datagram leaves.
\<close>

theorem telemetry_counterexample:
  "\<not> (length (send_to_emulator socket_ok True (globals_on\<lparr>emulator_enabled := False\<rparr>)) = 1)
   \<and> \<not> (length (send_to_emulator socket_down True globals_on) = 1)"
  by (simp add: send_to_emulator_def globals_on_def socket_down_def Let_def)

text \<open>
  Claim C5 (telemetry format), amended. When the emulator is enabled and the socket
  does not raise, a call with danger present sends exactly one datagram, to
  127.0.0.1:5555, whose payload is the UTF-8 encoding of \<open>{"danger_level": 50}\<close>, and a
  call with danger absent sends exactly one with \<open>{"danger_level": 0}\<close>. When the
  emulator is disabled, or the socket raises on the datagram, the call sends nothing. In
  every case a call sends at most one datagram and its payload is one of these two.
\<close>

theorem telemetry_amended:
  \<open>(emulator_enabled g \<and> (\<forall>d. \<not> isl (sendto d)) \<longrightarrow>
      send_to_emulator sendto True g =
        [\<lparr>payload = encode_utf8 ''{"danger_level": 50}'', address = (''127.0.0.1'', 5555)\<rparr>]
    \<and> send_to_emulator sendto False g =
        [\<lparr>payload = encode_utf8 ''{"danger_level": 0}'', address = (''127.0.0.1'', 5555)\<rparr>])
   \<and> (\<not> emulator_enabled g \<longrightarrow> send_to_emulator sendto h g = [])
   \<and> (isl (sendto (danger_datagram (if h then 50 else 0))) \<longrightarrow>
        send_to_emulator sendto h g = [])
   \<and> length (send_to_emulator sendto h g) \<le> 1
   \<and> payload ` set (send_to_emulator sendto h g)
        \<subseteq> {encode_utf8 ''{"danger_level": 50}'', encode_utf8 ''{"danger_level": 0}''}\<close>
  by (auto simp: send_to_emulator_cases danger_datagram_def danger_level_50 danger_level_0
        EMULATOR_IP_def EMULATOR_PORT_def)

theorem telemetry_amended_witness:
  \<open>emulator_enabled globals_on \<and> (\<forall>d. \<not> isl (socket_ok d))
   \<and> send_to_emulator socket_ok True globals_on =
       [\<lparr>payload = [0x7b, 0x22, 0x64, 0x61, 0x6e, 0x67, 0x65, 0x72, 0x5f, 0x6c, 0x65, 0x76,
                     0x65, 0x6c, 0x22, 0x3a, 0x20, 0x35, 0x30, 0x7d],
         address = (''127.0.0.1'', 5555)\<rparr>]
   \<and> send_to_emulator socket_ok False globals_on =
       [\<lparr>payload = [0x7b, 0x22, 0x64, 0x61, 0x6e, 0x67, 0x65, 0x72, 0x5f, 0x6c, 0x65, 0x76,
                     0x65, 0x6c, 0x22, 0x3a, 0x20, 0x30, 0x7d],
         address = (''127.0.0.1'', 5555)\<rparr>]
   \<and> \<not> emulator_enabled (globals_on\<lparr>emulator_enabled := False\<rparr>)
   \<and> send_to_emulator socket_ok True (globals_on\<lparr>emulator_enabled := False\<rparr>) = []
   \<and> isl (socket_down (danger_datagram 50))
   \<and> send_to_emulator socket_down True globals_on = []\<close>
proof -
  have e: "emulator_enabled globals_on" and n: "\<forall>d. \<not> isl (socket_ok d)"
    by (simp_all add: globals_on_def socket_ok_def)
  have d: "\<not> emulator_enabled (globals_on\<lparr>emulator_enabled := False\<rparr>)"
    by simp
  have r: "isl (socket_down (danger_datagram (if True then 50 else 0)))"
    by (simp add: socket_down_def)
  from telemetry_amended [of globals_on socket_ok True] e n
  have 1: \<open>send_to_emulator socket_ok True globals_on =
        [\<lparr>payload = encode_utf8 ''{"danger_level": 50}'', address = (''127.0.0.1'', 5555)\<rparr>]\<close>
    and 2: \<open>send_to_emulator socket_ok False globals_on =
        [\<lparr>payload = encode_utf8 ''{"danger_level": 0}'', address = (''127.0.0.1'', 5555)\<rparr>]\<close>
    by blast+
  from telemetry_amended [of "globals_on\<lparr>emulator_enabled := False\<rparr>" socket_ok True] d
  have 3: "send_to_emulator socket_ok True (globals_on\<lparr>emulator_enabled := False\<rparr>) = []"
    by blast
  from telemetry_amended [of globals_on socket_down True] r
  have 4: "send_to_emulator socket_down True globals_on = []"
    by blast
  show ?thesis
    using e n d r 1 2 3 4 by (simp add: encode_utf8_def)
qed

section \<open>Stopping the child\<close>

text \<open>
  Claim C8 as stated (\<open>stop\<close> always returns with the child confirmed dead) does not
  hold: when the request to terminate raises, the handler \<open>except Exception\<close> logs the
  error and \<open>finally\<close> releases the handle, with no wait on the child at all.
\<close>

theorem stop_process_counterexample:
  "\<not> confirmed_dead (stop_calls env_terminate_raises)
   \<and> process watchdog_busy = Some \<lparr>pid = 4242\<rparr>
   \<and> process (stop_process env_terminate_raises watchdog_busy) = None
   \<and> trace (stop_process env_terminate_raises watchdog_busy) =
        [Terminate (Some (Error ''Operation not permitted''))]"
  by (simp add: confirmed_dead_def stop_calls_def env_terminate_raises_def stop_process_def
        watchdog_busy_def watchdog_fresh_def Watchdog_init_def sample_script_path)

text \<open>
  Claim C8 (graceful-then-forced stop), amended. Let a child be running. Then
  \<open>stop_process\<close> releases the handle and appends its calls to the trace, and the first
  call is the request to terminate. If that request returns and the wait of 10 seconds
  returns the exit code, this is all. If the wait times out and the kill returns, the
  child is killed and waited for without limit. If \<open>terminate\<close> raises, or the wait of
  10 seconds raises anything but the timeout, or \<open>kill\<close> raises, that call is the last:
  the exception is caught and nothing more is done to the child. The child is confirmed
  dead (the last call is a wait that returned an exit code) exactly if no call made
  raised anything but the timeout of the first wait; so whenever \<open>terminate\<close>, \<open>kill\<close> or
  a wait raises another exception, \<open>stop_process\<close> returns without the child's death
  confirmed. In every case \<open>stop_process\<close> returns with the handle released; with no
  child running it changes nothing; and a second call after a first changes nothing.
\<close>

theorem stop_process_amended:
  assumes "process w = Some p"
  shows "process (stop_process env w) = None
     \<and> trace (stop_process env w) = trace w @ stop_calls env
     \<and> hd (stop_calls env) = Terminate (terminate_result env)
     \<and> (terminate_result env = None \<and> wait_timeout_result env = Inr rc \<longrightarrow>
          stop_calls env = [Terminate None, Wait (Some 10) (Inr rc)])
     \<and> (terminate_result env = None \<and> wait_timeout_result env = Inl TimeoutExpired
          \<and> kill_result env = None \<longrightarrow>
          stop_calls env =
            [Terminate None, Wait (Some 10) (Inl TimeoutExpired),
             Kill None, Wait None (wait_result env)])
     \<and> (terminate_result env = Some e \<longrightarrow> stop_calls env = [Terminate (Some e)])
     \<and> (terminate_result env = None \<and> wait_timeout_result env = Inl e
          \<and> e \<noteq> TimeoutExpired \<longrightarrow>
          stop_calls env = [Terminate None, Wait (Some 10) (Inl e)])
     \<and> (terminate_result env = None \<and> wait_timeout_result env = Inl TimeoutExpired
          \<and> kill_result env = Some e \<longrightarrow>
          stop_calls env =
            [Terminate None, Wait (Some 10) (Inl TimeoutExpired), Kill (Some e)])
     \<and> confirmed_dead (stop_calls env) =
          (terminate_result env = None
           \<and> (\<not> isl (wait_timeout_result env)
                \<or> (wait_timeout_result env = Inl TimeoutExpired \<and> kill_result env = None
                    \<and> \<not> isl (wait_result env))))
     \<and> (\<forall>env' w'. process (stop_process env' w') = None)
     \<and> (\<forall>env' w'. process w' = None \<longrightarrow> stop_process env' w' = w')
     \<and> (\<forall>env' env'' w'. stop_process env'' (stop_process env' w') = stop_process env' w')"
proof -
  have calls: "hd (stop_calls env) = Terminate (terminate_result env)"
    by (simp add: stop_calls_def split: option.splits sum.splits exn.splits)
  have dead: "confirmed_dead (stop_calls env) =
          (terminate_result env = None
           \<and> (\<not> isl (wait_timeout_result env)
                \<or> (wait_timeout_result env = Inl TimeoutExpired \<and> kill_result env = None
                    \<and> \<not> isl (wait_result env))))"
    by (cases "wait_result env")
       (auto simp: stop_calls_def confirmed_dead_def split: option.splits sum.splits exn.splits)
  have lists: "(terminate_result env = None \<and> wait_timeout_result env = Inr rc \<longrightarrow>
          stop_calls env = [Terminate None, Wait (Some 10) (Inr rc)])
     \<and> (terminate_result env = None \<and> wait_timeout_result env = Inl TimeoutExpired
          \<and> kill_result env = None \<longrightarrow>
          stop_calls env =
            [Terminate None, Wait (Some 10) (Inl TimeoutExpired),
             Kill None, Wait None (wait_result env)])
     \<and> (terminate_result env = Some e \<longrightarrow> stop_calls env = [Terminate (Some e)])
     \<and> (terminate_result env = None \<and> wait_timeout_result env = Inl e
          \<and> e \<noteq> TimeoutExpired \<longrightarrow>
          stop_calls env = [Terminate None, Wait (Some 10) (Inl e)])
     \<and> (terminate_result env = None \<and> wait_timeout_result env = Inl TimeoutExpired
          \<and> kill_result env = Some e \<longrightarrow>
          stop_calls env =
            [Terminate None, Wait (Some 10) (Inl TimeoutExpired), Kill (Some e)])"
    by (cases e) (simp_all add: stop_calls_def)
  have rel: "\<forall>env' w'. process (stop_process env' w') = None"
    by (simp add: stop_process_def split: option.splits)
  have noop: "\<forall>env' w'. process w' = None \<longrightarrow> stop_process env' w' = w'"
    by (simp add: stop_process_def)
  have idem: "\<forall>env' env'' w'. stop_process env'' (stop_process env' w') = stop_process env' w'"
    using rel noop by simp
  have own: "process (stop_process env w) = None
     \<and> trace (stop_process env w) = trace w @ stop_calls env"
    using assms by (simp add: stop_process_def)
  show ?thesis
    using own calls lists dead rel noop idem by blast
qed

theorem stop_process_amended_witness:
  "process watchdog_busy = Some \<lparr>pid = 4242\<rparr>
   \<and> terminate_result env_stubborn = None
   \<and> wait_timeout_result env_stubborn = Inl TimeoutExpired
   \<and> kill_result env_stubborn = None
   \<and> stop_calls env_stubborn =
        [Terminate None, Wait (Some 10) (Inl TimeoutExpired), Kill None, Wait None (Inr (- 9))]
   \<and> confirmed_dead (stop_calls env_stubborn)
   \<and> trace (stop_process env_stubborn watchdog_busy) =
        [Terminate None, Wait (Some 10) (Inl TimeoutExpired), Kill None, Wait None (Inr (- 9))]
   \<and> process (stop_process env_stubborn watchdog_busy) = None
   \<and> terminate_result env_terminate_raises = Some (Error ''Operation not permitted'')
   \<and> stop_calls env_terminate_raises = [Terminate (Some (Error ''Operation not permitted''))]
   \<and> \<not> confirmed_dead (stop_calls env_terminate_raises)
   \<and> process (stop_process env_terminate_raises watchdog_busy) = None
   \<and> kill_result env_kill_raises = Some (Error ''Operation not permitted'')
   \<and> stop_calls env_kill_raises =
        [Terminate None, Wait (Some 10) (Inl TimeoutExpired),
         Kill (Some (Error ''Operation not permitted''))]
   \<and> \<not> confirmed_dead (stop_calls env_kill_raises)
   \<and> stop_process env_stubborn (stop_process env_stubborn watchdog_busy) =
        stop_process env_stubborn watchdog_busy
   \<and> process watchdog_fresh = None
   \<and> stop_process env_stubborn watchdog_fresh = watchdog_fresh"
proof -
  have h: "process watchdog_busy = Some \<lparr>pid = 4242\<rparr>"
    by (simp add: watchdog_busy_def)
  have f: "process watchdog_fresh = None" "trace watchdog_busy = []"
    by (simp_all add: watchdog_busy_def watchdog_fresh_def Watchdog_init_def)
  have s: "terminate_result env_stubborn = None"
    "wait_timeout_result env_stubborn = Inl TimeoutExpired"
    "kill_result env_stubborn = None" "wait_result env_stubborn = Inr (- 9)"
    by (simp_all add: env_stubborn_def)
  have r: "terminate_result env_terminate_raises = Some (Error ''Operation not permitted'')"
    by (simp add: env_terminate_raises_def)
  have k: "terminate_result env_kill_raises = None"
    "wait_timeout_result env_kill_raises = Inl TimeoutExpired"
    "kill_result env_kill_raises = Some (Error ''Operation not permitted'')"
    by (simp_all add: env_kill_raises_def)
  note a = stop_process_amended [OF h, where env = env_stubborn and rc = 0
             and e = "Error ''Operation not permitted''"]
  note b = stop_process_amended [OF h, where env = env_terminate_raises and rc = 0
             and e = "Error ''Operation not permitted''"]
  note c = stop_process_amended [OF h, where env = env_kill_raises and rc = 0
             and e = "Error ''Operation not permitted''"]
  have a1: "stop_calls env_stubborn =
        [Terminate None, Wait (Some 10) (Inl TimeoutExpired), Kill None, Wait None (Inr (- 9))]"
    using a s by simp
  have ns: "\<not> isl (wait_result env_stubborn)"
    and nr: "terminate_result env_terminate_raises \<noteq> None"
    and nk: "kill_result env_kill_raises \<noteq> None" "isl (wait_timeout_result env_kill_raises)"
    using s r k by simp_all
  have a2: "confirmed_dead (stop_calls env_stubborn)"
    using a s ns by blast
  have a3: "trace (stop_process env_stubborn watchdog_busy) = trace watchdog_busy @ stop_calls env_stubborn"
    and a4: "process (stop_process env_stubborn watchdog_busy) = None"
    and a5: "stop_process env_stubborn (stop_process env_stubborn watchdog_busy) =
               stop_process env_stubborn watchdog_busy"
    and a6: "stop_process env_stubborn watchdog_fresh = watchdog_fresh"
    using a f by blast+
  have b1: "stop_calls env_terminate_raises = [Terminate (Some (Error ''Operation not permitted''))]"
    using b r by blast
  have b2: "\<not> confirmed_dead (stop_calls env_terminate_raises)"
    using b nr by blast
  have b3: "process (stop_process env_terminate_raises watchdog_busy) = None"
    using b by blast
  have c1: "stop_calls env_kill_raises =
        [Terminate None, Wait (Some 10) (Inl TimeoutExpired),
         Kill (Some (Error ''Operation not permitted''))]"
    using c k by blast
  have c2: "\<not> confirmed_dead (stop_calls env_kill_raises)"
    using c nk by blast
  show ?thesis
    using h s r k a1 a2 a3 a4 a5 a6 b1 b2 b3 c1 c2 f by simp
qed

section \<open>Starts that fail\<close>













section \<open>The restart cap\<close>



lemma run_loop_returned:
  "run_loop m envs i w = (True, w') \<Longrightarrow> run_loop (m + k) envs i w = (True, w')"
proof (induction m arbitrary: i w)
  case 0
  then show ?case by (cases k) auto
next
  case (Suc m)
  show ?case
  proof (cases "running w")
    case False
    with Suc.prems show ?thesis by simp
  next
    case True
    obtain c w1 where b: "run_body (envs i) w = (c, w1)"
      by (cases "run_body (envs i) w")
    show ?thesis
    proof (cases "c = Break")
      case True
      with \<open>running w\<close> b Suc.prems show ?thesis by simp
    next
      case False
      then have "run_loop (Suc m) envs i w = run_loop m envs (Suc i) w1"
        and "run_loop (Suc m + k) envs i w = run_loop (m + k) envs (Suc i) w1"
        using \<open>running w\<close> b by (cases c; simp)+
      with Suc.IH [of "Suc i" w1] Suc.prems show ?thesis by simp
    qed
  qed
qed






























section \<open>Cycles without a new result\<close>

lemma add_rgb_frame_result_queue: "result_queue (add_rgb_frame p f) = result_queue p"
  by (simp add: add_rgb_frame_def split: sum.splits)

lemma main_intake_result_queue:
  "result_queue (processor (main_intake rgb_in s)) = result_queue (processor s)"
  by (simp add: main_intake_def add_rgb_frame_result_queue split: option.splits)

lemma main_intake_rest:
  "current_detections (main_intake rgb_in s) = current_detections s \<and>
   globals (main_intake rgb_in s) = globals s"
  by (simp add: main_intake_def split: option.splits)

lemma play_alert_sound_flags:
  "sound_enabled (snd (play_alert_sound h g)) = sound_enabled g \<and>
   emulator_enabled (snd (play_alert_sound h g)) = emulator_enabled g"
  by (simp add: play_alert_sound_def)

lemma play_alert_sound_settles:
  "sound_enabled g \<Longrightarrow>
   current_playing_sound (snd (play_alert_sound h g)) = (if h then Some ''chiller'' else None)"
  by (simp add: play_alert_sound_def)

lemma play_alert_sound_settled:
  "sound_enabled g \<Longrightarrow> current_playing_sound g = (if h then Some ''chiller'' else None) \<Longrightarrow>
   play_alert_sound h g = ([], g)"
  by (simp add: play_alert_sound_def)

lemma send_to_emulator_flag:
  "emulator_enabled g' = emulator_enabled g \<Longrightarrow>
   send_to_emulator sendto h g' = send_to_emulator sendto h g"
  by (simp add: send_to_emulator_def)

lemma send_to_emulator_disabled: "\<not> emulator_enabled g \<Longrightarrow> send_to_emulator sendto h g = []"
  by (simp add: send_to_emulator_def)

lemma main_dispatch_parts:
  "current_detections (snd (main_dispatch sendto s)) =
     (case fst (get_latest_detection (processor s)) of
        None \<Rightarrow> current_detections s | Some ds \<Rightarrow> ds)
   \<and> fst (fst (main_dispatch sendto s)) =
       send_to_emulator sendto (current_detections (snd (main_dispatch sendto s)) \<noteq> []) (globals s)
   \<and> globals (snd (main_dispatch sendto s)) =
       (if sound_enabled (globals s)
        then snd (play_alert_sound (current_detections (snd (main_dispatch sendto s)) \<noteq> []) (globals s))
        else globals s)"
  by (simp add: main_dispatch_def Let_def split_def send_to_emulator_def)

text \<open>
  Every cycle leaves the sound settled and the two switches as they were, and the
  telemetry it sends is the one of the detections it has latched.
\<close>

lemma main_cycle_settles:
  assumes "main_cycle sendto rgb_in s = (out, s')"
  shows "alert_settled s'
       \<and> sound_enabled (globals s') = sound_enabled (globals s)
       \<and> emulator_enabled (globals s') = emulator_enabled (globals s)
       \<and> fst out = send_to_emulator sendto (current_detections s' \<noteq> []) (globals s')"
proof -
  let ?m = "main_intake rgb_in s"
  have s': "s' = snd (main_dispatch sendto ?m)" and out: "out = fst (main_dispatch sendto ?m)"
    using assms by (simp_all add: main_cycle_def)
  note parts = main_dispatch_parts [of sendto ?m]
  have g: "globals s' =
       (if sound_enabled (globals s)
        then snd (play_alert_sound (current_detections s' \<noteq> []) (globals s))
        else globals s)"
    using parts s' by (simp add: main_intake_rest)
  have f: "sound_enabled (globals s') = sound_enabled (globals s)"
    "emulator_enabled (globals s') = emulator_enabled (globals s)"
    unfolding g by (simp_all add: play_alert_sound_flags)
  have a: "alert_settled s'"
    unfolding alert_settled_def f(1)
    by (simp add: g play_alert_sound_settles)
  have t: "fst out = send_to_emulator sendto (current_detections s' \<noteq> []) (globals s)"
    using parts s' out by (simp add: main_intake_rest)
  show ?thesis
    using a f t send_to_emulator_flag [OF f(2)] by simp
qed

text \<open>The state before the first cycle is settled too, nothing playing at the start.\<close>

lemma main_init_settled:
  "current_playing_sound g = None \<Longrightarrow> alert_settled (main_init g)"
  by (simp add: alert_settled_def main_init_def)

lemma quiet_cycle:
  assumes "items (result_queue (processor s)) = []" and "alert_settled s"
  shows "main_cycle sendto rgb_in s =
           ((send_to_emulator sendto (current_detections s \<noteq> []) (globals s), []),
            s\<lparr>processor := processor (main_intake rgb_in s)\<rparr>)"
proof -
  let ?m = "main_intake rgb_in s"
  have g: "get_latest_detection (processor ?m) = (None, processor ?m)"
    using assms(1) by (simp add: get_latest_detection_def get_nowait_def main_intake_result_queue)
  have c: "current_detections ?m = current_detections s" and gl: "globals ?m = globals s"
    by (simp_all add: main_intake_rest)
  have p: "sound_enabled (globals s) \<Longrightarrow>
           play_alert_sound (current_detections s \<noteq> []) (globals s) = ([], globals s)"
    using assms(2) by (simp add: alert_settled_def play_alert_sound_settled)
  have "main_dispatch sendto ?m =
          ((send_to_emulator sendto (current_detections s \<noteq> []) (globals s), []),
           \<lparr>processor = processor ?m, current_detections = current_detections s,
            globals = globals s\<rparr>)"
    unfolding main_dispatch_def Let_def g c gl
    by (simp add: p send_to_emulator_disabled)
  then show ?thesis
    by (simp add: main_cycle_def)
qed

lemma quiet_cycles:
  "items (result_queue (processor s)) = [] \<Longrightarrow> alert_settled s \<Longrightarrow>
   fst (main_cycles sendto ins s) =
     replicate (length ins) (send_to_emulator sendto (current_detections s \<noteq> []) (globals s), [])
   \<and> current_detections (snd (main_cycles sendto ins s)) = current_detections s
   \<and> globals (snd (main_cycles sendto ins s)) = globals s"
proof (induction ins arbitrary: s)
  case Nil
  show ?case by simp
next
  case (Cons rgb_in ins)
  let ?s' = "s\<lparr>processor := processor (main_intake rgb_in s)\<rparr>"
  have c: "main_cycle sendto rgb_in s =
             ((send_to_emulator sendto (current_detections s \<noteq> []) (globals s), []), ?s')"
    using quiet_cycle [OF Cons.prems] .
  have q: "items (result_queue (processor ?s')) = []"
    using Cons.prems(1) by (simp add: main_intake_result_queue)
  have a: "alert_settled ?s'"
    using Cons.prems(2) by (simp add: alert_settled_def)
  show ?case
    using Cons.IH [OF q a] c by (simp add: split_def)
qed

text \<open>
  Claim C10 (latching). Let \<open>s1\<close> be the state a cycle of the main loop has left, and
  let the next cycle find a processor \<open>p\<close> whose result queue is empty, so that
  \<open>get_latest_detection\<close> returns \<open>None\<close>. Then that cycle leaves the latched detections
  and the globals (the sound state among them) as they were and makes no call on the
  mixer, and the telemetry it sends is the one for the latched detections, as was the
  telemetry of the cycle before: with the same socket the two cycles send the same. In
  particular, if the latched list is not empty, sound and emulator are enabled and the
  socket does not raise, then over any number of further cycles with no new result
  every cycle sends the datagram for danger level 50 and calls the mixer not at all,
  and the chiller is still playing at the end.
\<close>

theorem latched_detections:
  assumes prev: "main_cycle sendto0 in0 s0 = (out1, s1)"
      and none: "items (result_queue p) = []"
  shows "main_cycle sendto rgb_in (s1\<lparr>processor := p\<rparr>) =
           ((send_to_emulator sendto (current_detections s1 \<noteq> []) (globals s1), []),
            s1\<lparr>processor := processor (main_intake rgb_in (s1\<lparr>processor := p\<rparr>))\<rparr>)
       \<and> fst out1 = send_to_emulator sendto0 (current_detections s1 \<noteq> []) (globals s1)
       \<and> (current_detections s1 \<noteq> [] \<and> sound_enabled (globals s1)
            \<and> emulator_enabled (globals s1) \<and> (\<forall>d. \<not> isl (sendto d)) \<longrightarrow>
          fst (main_cycles sendto ins (s1\<lparr>processor := p\<rparr>)) =
            replicate (length ins) ([danger_datagram 50], [])
          \<and> current_detections (snd (main_cycles sendto ins (s1\<lparr>processor := p\<rparr>))) =
              current_detections s1
          \<and> current_playing_sound (globals (snd (main_cycles sendto ins (s1\<lparr>processor := p\<rparr>)))) =
              Some ''chiller'')"
proof -
  let ?s = "s1\<lparr>processor := p\<rparr>"
  have settled: "alert_settled s1"
    and sent: "fst out1 = send_to_emulator sendto0 (current_detections s1 \<noteq> []) (globals s1)"
    using main_cycle_settles [OF prev] by blast+
  have a: "alert_settled ?s"
    using settled by (simp add: alert_settled_def)
  have q: "items (result_queue (processor ?s)) = []"
    using none by simp
  have one: "main_cycle sendto rgb_in ?s =
           ((send_to_emulator sendto (current_detections s1 \<noteq> []) (globals s1), []),
            s1\<lparr>processor := processor (main_intake rgb_in ?s)\<rparr>)"
    using quiet_cycle [OF q a, of sendto rgb_in] by simp
  have many: "fst (main_cycles sendto ins ?s) =
       replicate (length ins) (send_to_emulator sendto (current_detections s1 \<noteq> []) (globals s1), [])
     \<and> current_detections (snd (main_cycles sendto ins ?s)) = current_detections s1
     \<and> globals (snd (main_cycles sendto ins ?s)) = globals s1"
    using quiet_cycles [OF q a, of sendto ins] by simp
  have alarm: "current_detections s1 \<noteq> [] \<Longrightarrow> sound_enabled (globals s1) \<Longrightarrow>
               current_playing_sound (globals s1) = Some ''chiller''"
    using settled by (simp add: alert_settled_def)
  have level: "current_detections s1 \<noteq> [] \<Longrightarrow> emulator_enabled (globals s1) \<Longrightarrow>
               \<forall>d. \<not> isl (sendto d) \<Longrightarrow>
               send_to_emulator sendto (current_detections s1 \<noteq> []) (globals s1) =
                 [danger_datagram 50]"
    by (simp add: send_to_emulator_cases)
  show ?thesis
    using one sent many alarm level by simp
qed

lemma sample_cycle:
  "main_cycle socket_ok (Some 1) sample_state =
     (([danger_datagram 50], [Mixer_stop, Sound_play (- 1)]), sample_latched)"
  by (simp add: main_cycle_def main_dispatch_def main_intake_def sample_state_def
        sample_latched_def add_rgb_frame_def put_nowait_def push_result_def full_def put_def
        qsize_def start_def FrameProcessor_init_def Queue_def get_latest_detection_def
        get_nowait_def car_detection_def globals_on_def play_alert_sound_def
        send_to_emulator_def danger_datagram_def socket_ok_def Let_def)

theorem latched_detections_witness:
  "main_cycle socket_ok (Some 1) sample_state =
     (([danger_datagram 50], [Mixer_stop, Sound_play (- 1)]), sample_latched)
   \<and> items (result_queue (processor sample_latched)) = []
   \<and> main_cycle socket_ok (Some 2) sample_latched =
       (([danger_datagram 50], []),
        sample_latched\<lparr>processor := add_rgb_frame (processor sample_latched) 2\<rparr>)
   \<and> current_detections sample_latched \<noteq> []
   \<and> sound_enabled (globals sample_latched) \<and> emulator_enabled (globals sample_latched)
   \<and> (\<forall>d. \<not> isl (socket_ok d))
   \<and> fst (main_cycles socket_ok [Some 2, None, Some 1] sample_latched) =
       [([danger_datagram 50], []), ([danger_datagram 50], []), ([danger_datagram 50], [])]
   \<and> current_playing_sound (globals (snd (main_cycles socket_ok [Some 2, None, Some 1] sample_latched))) =
       Some ''chiller''"
proof -
  have none: "items (result_queue (processor sample_latched)) = []"
    by (simp add: sample_latched_def)
  have h: "current_detections sample_latched \<noteq> []" "sound_enabled (globals sample_latched)"
    "emulator_enabled (globals sample_latched)" "\<forall>d. \<not> isl (socket_ok d)"
    by (simp_all add: sample_latched_def globals_on_def socket_ok_def)
  have same: "sample_latched\<lparr>processor := processor sample_latched\<rparr> = sample_latched"
    by simp
  note t = latched_detections [OF sample_cycle none, where sendto = socket_ok
             and rgb_in = "Some 2" and ins = "[Some 2, None, Some 1]", unfolded same]
  have level: "send_to_emulator socket_ok (current_detections sample_latched \<noteq> [])
                 (globals sample_latched) = [danger_datagram 50]"
    using h by (simp add: send_to_emulator_cases)
  have one: "main_cycle socket_ok (Some 2) sample_latched =
       (([danger_datagram 50], []),
        sample_latched\<lparr>processor := add_rgb_frame (processor sample_latched) 2\<rparr>)"
    using t [THEN conjunct1] level by (simp add: main_intake_def)
  have many: "fst (main_cycles socket_ok [Some 2, None, Some 1] sample_latched) =
       replicate (length [Some 2, None, Some (1::int)]) ([danger_datagram 50], [])
     \<and> current_playing_sound
         (globals (snd (main_cycles socket_ok [Some 2, None, Some 1] sample_latched))) =
       Some ''chiller''"
    using t h by blast
  show ?thesis
    using sample_cycle none one h many by (simp add: numeral_3_eq_3)
qed

end
